theory Spec2Isabelle
  imports Complex_Main "HOL-Library.Word"
begin

section \<open>The half-edge kernel of poly2tri-c (refine/edge.c) and the point-file reader\<close>

text \<open>
  The development embeds the edge operations of the mesh kernel
  (\<^verbatim>\<open>p2tr_edge_*\<close>) and \<^verbatim>\<open>read_points_file\<close> of the command-line tool.

  Conventions of the embedding.
  \<^item> The C heap is a record of partial maps from addresses to objects. A pointer that may
    be \<^verbatim>\<open>NULL\<close> is an \<open>option\<close>; reading through \<^verbatim>\<open>NULL\<close> or through an address that
    holds no live object (never allocated, or already released) is undefined in C and is
    the error \<open>Invalid_Access\<close> here.
  \<^item> \<^verbatim>\<open>gdouble\<close> is idealised as \<open>real\<close> and \<^verbatim>\<open>atan2\<close>, \<^verbatim>\<open>sqrt\<close> are the mathematical
    functions: rounding is not modelled.
  \<^item> \<^verbatim>\<open>guint\<close> reference counts are 32-bit words: decrementing 0 wraps around.
  \<^item> Every function takes the heap and returns either an error or its result together
    with the updated heap.
\<close>

subsection \<open>Data model\<close>

type_synonym point_ptr = nat
type_synonym edge_ptr = nat
type_synonym tri_ptr = nat
type_synonym mesh_ptr = nat

datatype error =
    Invalid_Access
  | Programmatic string
  | G_Error string
  | Exit int

record P2trVector2 =
  v_x :: real
  v_y :: real

record P2trCircle =
  center :: P2trVector2
  radius :: real

record P2trPoint =
  p_c :: P2trVector2
  outgoing_edges :: "edge_ptr set"
  p_refcount :: "32 word"
  mesh :: "mesh_ptr option"

record P2trEdge =
  e_end :: "point_ptr option"
  mirror :: edge_ptr
  constrained :: bool
  tri :: "tri_ptr option"
  angle :: real
  delaunay :: bool
  refcount :: "32 word"

record P2trTriangle =
  tr_edges :: "edge_ptr list"

text \<open>
  The collaborators that \<^verbatim>\<open>p2tr_edge_remove\<close> calls out to (triangle removal and the
  removal hook of the mesh) are observers of the heap: every call is recorded, in order,
  with the objects the callee finds at that moment (\<open>snapshot\<close>). The record is what
  statements about the order of the steps of a removal are made of.
\<close>

record snapshot =
  seen_points :: "point_ptr \<rightharpoonup> P2trPoint"
  seen_edges :: "edge_ptr \<rightharpoonup> P2trEdge"
  seen_triangles :: "tri_ptr \<rightharpoonup> P2trTriangle"

datatype call =
    Triangle_Removed tri_ptr snapshot
  | Edge_Removed mesh_ptr edge_ptr snapshot

record heap =
  points :: "point_ptr \<rightharpoonup> P2trPoint"
  edges :: "edge_ptr \<rightharpoonup> P2trEdge"
  triangles :: "tri_ptr \<rightharpoonup> P2trTriangle"
  next_edge :: edge_ptr
  calls :: "call list"

definition snapshot_of :: "heap \<Rightarrow> snapshot" where
  "snapshot_of s = \<lparr>seen_points = points s, seen_edges = edges s, seen_triangles = triangles s\<rparr>"

text \<open>Sequencing of fallible steps: the first error ends the computation.\<close>

definition ebind :: "error + 'a \<Rightarrow> ('a \<Rightarrow> error + 'b) \<Rightarrow> error + 'b" where
  "ebind r f = (case r of Inl e \<Rightarrow> Inl e | Inr v \<Rightarrow> f v)"

definition point_at :: "heap \<Rightarrow> point_ptr option \<Rightarrow> error + P2trPoint" where
  "point_at s p =
     (case p of None \<Rightarrow> Inl Invalid_Access
      | Some a \<Rightarrow> (case points s a of None \<Rightarrow> Inl Invalid_Access | Some P \<Rightarrow> Inr P))"

definition edge_at :: "heap \<Rightarrow> edge_ptr \<Rightarrow> error + P2trEdge" where
  "edge_at s e = (case edges s e of None \<Rightarrow> Inl Invalid_Access | Some E \<Rightarrow> Inr E)"

definition triangle_at :: "heap \<Rightarrow> tri_ptr \<Rightarrow> error + P2trTriangle" where
  "triangle_at s t = (case triangles s t of None \<Rightarrow> Inl Invalid_Access | Some T \<Rightarrow> Inr T)"

definition put_point :: "heap \<Rightarrow> point_ptr \<Rightarrow> P2trPoint \<Rightarrow> heap" where
  "put_point s p P = s\<lparr>points := (points s)(p \<mapsto> P)\<rparr>"

definition put_edge :: "heap \<Rightarrow> edge_ptr \<Rightarrow> P2trEdge \<Rightarrow> heap" where
  "put_edge s e E = s\<lparr>edges := (edges s)(e \<mapsto> E)\<rparr>"

subsection \<open>External functions\<close>

text \<open>
  \<^verbatim>\<open>atan2\<close> of the C library on reals: the angle in \<open>(-\<pi>, \<pi>]\<close> of the vector \<open>(x, y)\<close>,
  and 0 for the zero vector (as \<^verbatim>\<open>atan2 (+0, +0)\<close>). The reals have neither rounding nor a
  negative zero (\<^verbatim>\<open>atan2 (-0.0, x)\<close> is \<open>-\<pi>\<close> for negative \<open>x\<close> in C): statements that need
  the exact value of a computed angle are made only where the doubles agree with the
  reals.
\<close>

definition atan2 :: "real \<Rightarrow> real \<Rightarrow> real" where
  "atan2 y x =
     (if 0 < x then arctan (y / x)
      else if x < 0 then (if 0 \<le> y then arctan (y / x) + pi else arctan (y / x) - pi)
      else if 0 < y then pi / 2
      else if y < 0 then - (pi / 2)
      else 0)"

text \<open>
  \<^verbatim>\<open>g_slice_new (P2trEdge)\<close>: a block that no live edge occupies. The allocator hands out
  the addresses \<open>next_edge\<close>, \<open>next_edge + 1\<close>, ... and never reuses one.
\<close>

definition g_slice_new_edge :: "heap \<Rightarrow> edge_ptr \<times> heap" where
  "g_slice_new_edge s = (next_edge s, s\<lparr>next_edge := Suc (next_edge s)\<rparr>)"

text \<open>\<^verbatim>\<open>g_slice_free (P2trEdge, p)\<close>: the block at \<open>p\<close> stops being a live object.\<close>

definition g_slice_free_edge :: "heap \<Rightarrow> edge_ptr \<Rightarrow> error + heap" where
  "g_slice_free_edge s p =
     (case edges s p of None \<Rightarrow> Inl Invalid_Access
      | Some E \<Rightarrow> Inr (s\<lparr>edges := (edges s)(p := None)\<rparr>))"

subsection \<open>Collaborators whose source is not part of the slice\<close>

text \<open>
  Modelled from the spec: the macro \<^verbatim>\<open>P2TR_EDGE_START\<close> of edge.h is missing; the spec's
  data model gives an edge the "implicit start = mirror's end".
\<close>

definition P2TR_EDGE_START :: "heap \<Rightarrow> edge_ptr \<Rightarrow> error + point_ptr option" where
  "P2TR_EDGE_START s e =
     ebind (edge_at s e) (\<lambda>E. ebind (edge_at s (mirror E)) (\<lambda>M. Inr (e_end M)))"

text \<open>
  Modelled from the spec: \<^verbatim>\<open>p2tr_exception_programmatic\<close> (utils.h) is missing; the spec
  calls a violated precondition a fatal assertion that aborts processing and returns
  no value.
\<close>

definition p2tr_exception_programmatic :: "string \<Rightarrow> error + 'a" where
  "p2tr_exception_programmatic msg = Inl (Programmatic msg)"

text \<open>
  Modelled from the spec: the vector helpers \<^verbatim>\<open>p2tr_vector2_center\<close>,
  \<^verbatim>\<open>p2tr_vector2_sub\<close>, \<^verbatim>\<open>p2tr_vector2_norm\<close> and \<^verbatim>\<open>p2tr_math_length_sq2\<close> are missing;
  they are the midpoint, the difference, the Euclidean norm and the squared Euclidean
  distance that the spec's diametral circle and edge length are made of.
\<close>

definition p2tr_vector2_center :: "P2trVector2 \<Rightarrow> P2trVector2 \<Rightarrow> P2trVector2" where
  "p2tr_vector2_center a b = \<lparr>v_x = (v_x a + v_x b) / 2, v_y = (v_y a + v_y b) / 2\<rparr>"

definition p2tr_vector2_sub :: "P2trVector2 \<Rightarrow> P2trVector2 \<Rightarrow> P2trVector2" where
  "p2tr_vector2_sub a b = \<lparr>v_x = v_x a - v_x b, v_y = v_y a - v_y b\<rparr>"

definition p2tr_vector2_norm :: "P2trVector2 \<Rightarrow> real" where
  "p2tr_vector2_norm v = sqrt (v_x v * v_x v + v_y v * v_y v)"

definition p2tr_math_length_sq2 :: "P2trVector2 \<Rightarrow> P2trVector2 \<Rightarrow> real" where
  "p2tr_math_length_sq2 a b =
     (v_x a - v_x b) * (v_x a - v_x b) + (v_y a - v_y b) * (v_y a - v_y b)"

text \<open>
  Modelled from the spec: point.c is missing. A point has a reference count, "an
  unordered collection of outgoing half-edges incident to it" with insert and remove,
  and a back-reference to its owning mesh; it is "destroyed when its reference count
  reaches zero".
\<close>

definition p2tr_point_ref :: "heap \<Rightarrow> point_ptr option \<Rightarrow> error + heap" where
  "p2tr_point_ref s p =
     ebind (point_at s p) (\<lambda>P. Inr (put_point s (the p) (P\<lparr>p_refcount := p_refcount P + 1\<rparr>)))"

definition p2tr_point_unref :: "heap \<Rightarrow> point_ptr option \<Rightarrow> error + heap" where
  "p2tr_point_unref s p =
     ebind (point_at s p) (\<lambda>P.
       if p_refcount P - 1 = 0 then Inr (s\<lparr>points := (points s)(the p := None)\<rparr>)
       else Inr (put_point s (the p) (P\<lparr>p_refcount := p_refcount P - 1\<rparr>)))"

definition p2tr_point_insert_edge :: "heap \<Rightarrow> point_ptr option \<Rightarrow> edge_ptr \<Rightarrow> error + heap" where
  "p2tr_point_insert_edge s p e =
     ebind (point_at s p) (\<lambda>P.
       Inr (put_point s (the p) (P\<lparr>outgoing_edges := insert e (outgoing_edges P)\<rparr>)))"

definition p2tr_point_remove_edge :: "heap \<Rightarrow> point_ptr option \<Rightarrow> edge_ptr \<Rightarrow> error + heap" where
  "p2tr_point_remove_edge s p e =
     ebind (point_at s p) (\<lambda>P.
       Inr (put_point s (the p) (P\<lparr>outgoing_edges := outgoing_edges P - {e}\<rparr>)))"

definition p2tr_point_get_mesh :: "heap \<Rightarrow> point_ptr option \<Rightarrow> error + mesh_ptr option" where
  "p2tr_point_get_mesh s p = ebind (point_at s p) (\<lambda>P. Inr (mesh P))"

text \<open>
  Modelled from the spec: triangle.c is missing. Triangle removal "detaches the triangle
  from its three bounding half-edges (clearing each one's bound-triangle reference) and
  reclaims the triangle". The call is recorded with the heap it is made on.
\<close>

fun clear_tri :: "heap \<Rightarrow> edge_ptr list \<Rightarrow> error + heap" where
  "clear_tri s [] = Inr s"
| "clear_tri s (e # es) =
     ebind (edge_at s e) (\<lambda>E. clear_tri (put_edge s e (E\<lparr>tri := None\<rparr>)) es)"

definition p2tr_triangle_remove :: "heap \<Rightarrow> tri_ptr \<Rightarrow> error + heap" where
  "p2tr_triangle_remove s t =
     ebind (triangle_at s t) (\<lambda>T.
     ebind (clear_tri s (tr_edges T)) (\<lambda>s1.
       Inr (s1\<lparr>triangles := (triangles s1)(t := None),
              calls := calls s1 @ [Triangle_Removed t (snapshot_of s)]\<rparr>)))"

text \<open>
  Modelled from the spec: mesh.c is missing. The mesh exposes "a removal-notification
  hook"; each invocation is recorded, in order, with the mesh, the direction it was
  invoked for and the heap the hook finds.
\<close>

definition p2tr_mesh_on_edge_removed :: "heap \<Rightarrow> mesh_ptr \<Rightarrow> edge_ptr \<Rightarrow> heap" where
  "p2tr_mesh_on_edge_removed s m e = s\<lparr>calls := calls s @ [Edge_Removed m e (snapshot_of s)]\<rparr>"

subsection \<open>refine/edge.c\<close>

definition p2tr_edge_init ::
  "heap \<Rightarrow> edge_ptr \<Rightarrow> point_ptr option \<Rightarrow> point_ptr option \<Rightarrow> bool \<Rightarrow> edge_ptr \<Rightarrow> error + heap" where
  "p2tr_edge_init s self start end' constrained' mirror' =
     ebind (point_at s end') (\<lambda>En.
     ebind (point_at s start) (\<lambda>St.
       Inr (put_edge s self
         \<lparr>e_end = end',
          mirror = mirror',
          constrained = constrained',
          tri = None,
          angle = atan2 (v_y (p_c En) - v_y (p_c St)) (v_x (p_c En) - v_x (p_c St)),
          delaunay = False,
          refcount = 0\<rparr>)))"

definition p2tr_edge_new ::
  "heap \<Rightarrow> point_ptr option \<Rightarrow> point_ptr option \<Rightarrow> bool \<Rightarrow> error + (edge_ptr \<times> heap)" where
  "p2tr_edge_new s start end' constrained' =
     (case g_slice_new_edge s of (self, sa) \<Rightarrow>
      case g_slice_new_edge sa of (mirror', sb) \<Rightarrow>
        ebind (p2tr_edge_init sb self start end' constrained' mirror') (\<lambda>s1.
        ebind (p2tr_edge_init s1 mirror' end' start constrained' self) (\<lambda>s2.
        ebind (p2tr_point_ref s2 start) (\<lambda>s3.
        ebind (p2tr_point_ref s3 end') (\<lambda>s4.
        ebind (p2tr_point_insert_edge s4 start self) (\<lambda>s5.
        ebind (p2tr_point_insert_edge s5 end' mirror') (\<lambda>s6.
        ebind (edge_at s6 self) (\<lambda>E.
          Inr (self, put_edge s6 self (E\<lparr>refcount := refcount E + 1\<rparr>))))))))))"

definition p2tr_edge_ref :: "heap \<Rightarrow> edge_ptr \<Rightarrow> error + (edge_ptr \<times> heap)" where
  "p2tr_edge_ref s self =
     ebind (edge_at s self) (\<lambda>E.
       Inr (self, put_edge s self (E\<lparr>refcount := refcount E + 1\<rparr>)))"

definition p2tr_edge_is_removed :: "heap \<Rightarrow> edge_ptr \<Rightarrow> error + bool" where
  "p2tr_edge_is_removed s self = ebind (edge_at s self) (\<lambda>E. Inr (e_end E = None))"

definition p2tr_edge_get_mesh :: "heap \<Rightarrow> edge_ptr \<Rightarrow> error + mesh_ptr option" where
  "p2tr_edge_get_mesh s self =
     ebind (edge_at s self) (\<lambda>E.
       if e_end E \<noteq> None then p2tr_point_get_mesh s (e_end E) else Inr None)"

definition p2tr_edge_remove :: "heap \<Rightarrow> edge_ptr \<Rightarrow> error + heap" where
  "p2tr_edge_remove s self =
     ebind (edge_at s self) (\<lambda>E.
       if e_end E = None then Inr s
       else
         ebind (p2tr_edge_get_mesh s self) (\<lambda>mesh'.
         ebind (P2TR_EDGE_START s self) (\<lambda>start.
         let end' = e_end E in
         ebind (if tri E \<noteq> None then p2tr_triangle_remove s (the (tri E)) else Inr s) (\<lambda>s1.
         ebind (edge_at s1 self) (\<lambda>E1.
         ebind (edge_at s1 (mirror E1)) (\<lambda>M1.
         ebind (if tri M1 \<noteq> None then p2tr_triangle_remove s1 (the (tri M1)) else Inr s1) (\<lambda>s2.
         ebind (p2tr_point_remove_edge s2 start self) (\<lambda>s3.
         ebind (edge_at s3 self) (\<lambda>E3.
         ebind (p2tr_point_remove_edge s3 end' (mirror E3)) (\<lambda>s4.
         ebind (edge_at s4 self) (\<lambda>E4.
         let s5 = put_edge s4 self (E4\<lparr>e_end := None\<rparr>) in
         ebind (edge_at s5 self) (\<lambda>E5.
         ebind (edge_at s5 (mirror E5)) (\<lambda>M5.
         let s6 = put_edge s5 (mirror E5) (M5\<lparr>e_end := None\<rparr>) in
         ebind (p2tr_point_unref s6 start) (\<lambda>s7.
         ebind (p2tr_point_unref s7 end') (\<lambda>s8.
           if mesh' \<noteq> None then
             ebind (edge_at s8 self) (\<lambda>E8.
               Inr (p2tr_mesh_on_edge_removed
                     (p2tr_mesh_on_edge_removed s8 (the mesh') self) (the mesh') (mirror E8)))
           else Inr s8)))))))))))))))"

text \<open>
  \<^verbatim>\<open>p2tr_edge_free\<close> releases \<^verbatim>\<open>self\<close> and then evaluates \<^verbatim>\<open>self->mirror\<close> to release the
  mirror: the second \<^verbatim>\<open>g_slice_free\<close> takes its argument from the block just released.
\<close>

definition p2tr_edge_free :: "heap \<Rightarrow> edge_ptr \<Rightarrow> error + heap" where
  "p2tr_edge_free s self =
     ebind (p2tr_edge_remove s self) (\<lambda>s1.
     ebind (g_slice_free_edge s1 self) (\<lambda>s2.
     ebind (edge_at s2 self) (\<lambda>E.
       g_slice_free_edge s2 (mirror E))))"

definition p2tr_edge_unref :: "heap \<Rightarrow> edge_ptr \<Rightarrow> error + heap" where
  "p2tr_edge_unref s self =
     ebind (edge_at s self) (\<lambda>E.
       let s1 = put_edge s self (E\<lparr>refcount := refcount E - 1\<rparr>) in
       if refcount E - 1 = 0 then
         ebind (edge_at s1 self) (\<lambda>E1.
         ebind (edge_at s1 (mirror E1)) (\<lambda>M1.
           if refcount M1 = 0 then p2tr_edge_free s1 self else Inr s1))
       else Inr s1)"

definition p2tr_edge_get_diametral_circle :: "heap \<Rightarrow> edge_ptr \<Rightarrow> error + P2trCircle" where
  "p2tr_edge_get_diametral_circle s self =
     ebind (edge_at s self) (\<lambda>E.
     ebind (point_at s (e_end E)) (\<lambda>En.
     ebind (P2TR_EDGE_START s self) (\<lambda>start.
     ebind (point_at s start) (\<lambda>St.
       let center' = p2tr_vector2_center (p_c En) (p_c St);
           radius' = p2tr_vector2_sub (p_c En) center'
       in Inr \<lparr>center = center', radius = p2tr_vector2_norm radius'\<rparr>))))"

definition p2tr_edge_get_length :: "heap \<Rightarrow> edge_ptr \<Rightarrow> error + real" where
  "p2tr_edge_get_length s self =
     ebind (edge_at s self) (\<lambda>E.
     ebind (point_at s (e_end E)) (\<lambda>En.
     ebind (P2TR_EDGE_START s self) (\<lambda>start.
     ebind (point_at s start) (\<lambda>St.
       Inr (sqrt (p2tr_math_length_sq2 (p_c En) (p_c St)))))))"

definition p2tr_edge_get_length_squared :: "heap \<Rightarrow> edge_ptr \<Rightarrow> error + real" where
  "p2tr_edge_get_length_squared s self =
     ebind (edge_at s self) (\<lambda>E.
     ebind (point_at s (e_end E)) (\<lambda>En.
     ebind (P2TR_EDGE_START s self) (\<lambda>start.
     ebind (point_at s start) (\<lambda>St.
       Inr (p2tr_math_length_sq2 (p_c En) (p_c St))))))"

definition p2tr_edge_angle_between :: "heap \<Rightarrow> edge_ptr \<Rightarrow> edge_ptr \<Rightarrow> error + real" where
  "p2tr_edge_angle_between s e1 e2 =
     ebind (edge_at s e1) (\<lambda>E1.
     ebind (P2TR_EDGE_START s e2) (\<lambda>start2.
       if e_end E1 \<noteq> start2 then
         p2tr_exception_programmatic
           ''The end-point of the first edge isn't the end-point of the second edge!''
       else
         ebind (edge_at s e2) (\<lambda>E2.
           let result = pi - angle E1 + angle E2 in
           Inr (if result > 2 * pi then result - 2 * pi else result))))"

subsection \<open>bin/main.c: \<^verbatim>\<open>read_points_file\<close>\<close>

text \<open>
  The file is the sequence of what the two \<^verbatim>\<open>fscanf\<close> calls of one loop iteration find:
  \<open>Scan_EOF\<close> when \<^verbatim>\<open>fscanf\<close> returns \<^verbatim>\<open>EOF\<close>, otherwise the values it converted, in
  order (\<open>scan_count\<close> is its return value, \<open>scan_store\<close> what it leaves in the buffer it
  was given). \<^verbatim>\<open>feof\<close> holds when the sequence is used up. The element type \<open>'f\<close> stands
  for \<^verbatim>\<open>gfloat\<close>: the function only stores these values. A \<^verbatim>\<open>NULL\<close> output argument is
  \<open>None\<close>. \<^verbatim>\<open>g_error\<close> aborts and \<^verbatim>\<open>exit (1)\<close> ends the program: both are errors; the
  messages of \<^verbatim>\<open>g_print\<close> are left out.
\<close>

datatype 'f scan = Scan_EOF | Scanned "'f list"

definition scan_count :: "'f scan \<Rightarrow> int" where
  "scan_count r = (case r of Scan_EOF \<Rightarrow> - 1 | Scanned vs \<Rightarrow> int (length vs))"

definition scan_store :: "'f list \<Rightarrow> 'f scan \<Rightarrow> 'f list" where
  "scan_store buf r =
     (case r of Scan_EOF \<Rightarrow> buf
      | Scanned vs \<Rightarrow> take (length buf) vs @ drop (length vs) buf)"

text \<open>
  \<^verbatim>\<open>g_array_append_val (a, v)\<close> copies one element of the element size of the array from
  the address of \<open>v\<close>. Sizes are counted in \<^verbatim>\<open>gfloat\<close>s. Where the element is larger than
  the buffer \<open>v\<close>, the copy reads past the end of \<open>v\<close>: what it finds there is not
  determined by the program (it depends on the layout of the stack frame), and such a
  component of the element is \<open>None\<close>.
\<close>

definition g_array_append_val :: "nat \<Rightarrow> 'f option list list \<Rightarrow> 'f list \<Rightarrow> 'f option list list" where
  "g_array_append_val elt_size a v =
     a @ [map Some (take elt_size v) @ replicate (elt_size - length v) None]"

record 'f read_result =
  r_points :: "('f \<times> 'f) list option"
  r_colors :: "'f option list list option"
  countPts :: int
  countCls :: int

text \<open>
  The loop body. The colours array is created with elements of \<^verbatim>\<open>sizeof (Color3f)\<close>,
  three \<^verbatim>\<open>gfloat\<close>s, and \<^verbatim>\<open>g_array_append_val (*colors, ptc)\<close> is handed the buffer
  \<open>ptc\<close> of two. The colour components in \<open>col\<close> (named \<open>col'\<close> after the gray-level
  copy) are not mentioned again.
\<close>

fun read_loop :: "('f::zero scan \<times> 'f scan) list \<Rightarrow> 'f read_result \<Rightarrow> error + 'f read_result" where
  "read_loop [] st = Inr st"
| "read_loop ((pscan, cscan) # rest) st =
     (let ptc = scan_store [0, 0] pscan;
          readSize = scan_count pscan
      in
      if readSize > 0 \<and> readSize \<noteq> 2 then
        Inl (G_Error ''Error! %d is an unexpected number of floats after point '@' declaration!'')
      else
        let foundPt = (readSize > 0);
            st1 = (if foundPt \<and> r_points st \<noteq> None
                   then st\<lparr>r_points := Some (the (r_points st) @ [(ptc ! 0, ptc ! 1)]),
                           countPts := countPts st + 1\<rparr>
                   else st);
            col = scan_store [0, 0, 0] cscan;
            readSize' = scan_count cscan
        in
        if readSize' > 0 \<and> readSize' \<noteq> 1 \<and> readSize' \<noteq> 3 then
          Inl (G_Error ''Error! %d is an unexpected number of floats after color '#' declaration!'')
        else
          let foundCol = (readSize' > 0);
              col' = (if foundCol \<and> readSize' = 1 then [col ! 0, col ! 0, col ! 0] else col);
              st2 = (if foundCol \<and> r_colors st1 \<noteq> None
                     then st1\<lparr>r_colors := Some (g_array_append_val 3 (the (r_colors st1)) ptc),
                              countCls := countCls st1 + 1\<rparr>
                     else st1)
          in if \<not> foundCol \<and> \<not> foundPt then Inr st2 else read_loop rest st2)"

definition read_points_file ::
  "('f::zero scan \<times> 'f scan) list option \<Rightarrow> bool \<Rightarrow> bool \<Rightarrow> error + 'f read_result" where
  "read_points_file f want_points want_colors =
     (case f of None \<Rightarrow> Inl (Exit 1)
      | Some scans \<Rightarrow>
          read_loop scans
            \<lparr>r_points = (if want_points then Some [] else None),
             r_colors = (if want_colors then Some [] else None),
             countPts = 0, countCls = 0\<rparr>)"

text \<open>
  For the description of the colours array: the point buffer of an iteration (the
  coordinates of its point line, or zeros) and the iterations that parse a colour line
  before the loop stops.
\<close>

definition point_buffer :: "'f::zero scan \<Rightarrow> 'f list" where
  "point_buffer p = (case p of Scanned [x, y] \<Rightarrow> [x, y] | _ \<Rightarrow> [0, 0])"

definition color_lines :: "('f scan \<times> 'f scan) list \<Rightarrow> ('f scan \<times> 'f scan) list" where
  "color_lines scans =
     filter (\<lambda>(p, c). 0 < scan_count c)
       (takeWhile (\<lambda>(p, c). 0 < scan_count p \<or> 0 < scan_count c) scans)"

subsection \<open>Well-formedness of an edge's neighbourhood, and the phases of removal\<close>

text \<open>
  The pairing of triangles and half-edges of the data model: a triangle lists live edges
  that are bound to it (\<open>tri_ok\<close>), and the triangle an edge is bound to lists that
  edge (\<open>bound_ok\<close>). \<open>clear_refs\<close> and \<open>bound_edges\<close> describe what triangle removal
  does to the edge heap and \<open>cascade_calls\<close> the triangle removals a well-formed
  neighbourhood leads to (the triangle of the edge on the initial heap, then the
  triangle of the mirror, if it is another one, on the heap without the first);
  \<open>remove_cascade\<close>, \<open>remove_tombstone\<close> and \<open>remove_notify\<close> name the three parts of the
  body of \<^verbatim>\<open>p2tr_edge_remove\<close> (lines 81-84, 86-93 and 95-99), for the proofs.
\<close>

definition clear_refs :: "edge_ptr set \<Rightarrow> (edge_ptr \<rightharpoonup> P2trEdge) \<Rightarrow> (edge_ptr \<rightharpoonup> P2trEdge)" where
  "clear_refs X h = (\<lambda>x. if x \<in> X then map_option (\<lambda>E. E\<lparr>tri := None\<rparr>) (h x) else h x)"

definition tri_ok :: "heap \<Rightarrow> tri_ptr \<Rightarrow> bool" where
  "tri_ok s t =
     (case triangles s t of None \<Rightarrow> False
      | Some T \<Rightarrow>
          list_all (\<lambda>y. case edges s y of None \<Rightarrow> False | Some Y \<Rightarrow> tri Y = Some t) (tr_edges T))"

definition bound_ok :: "heap \<Rightarrow> edge_ptr \<Rightarrow> bool" where
  "bound_ok s x =
     (case edges s x of None \<Rightarrow> False
      | Some X \<Rightarrow>
        (case tri X of None \<Rightarrow> True
         | Some t \<Rightarrow>
           (case triangles s t of None \<Rightarrow> False
            | Some T \<Rightarrow> x \<in> set (tr_edges T) \<and> tri_ok s t)))"

definition bound_edges :: "heap \<Rightarrow> tri_ptr option \<Rightarrow> edge_ptr set" where
  "bound_edges s t =
     (case t of None \<Rightarrow> {}
      | Some u \<Rightarrow> (case triangles s u of None \<Rightarrow> {} | Some T \<Rightarrow> set (tr_edges T)))"

definition call_triangle :: "call \<Rightarrow> tri_ptr option" where
  "call_triangle c = (case c of Triangle_Removed t sn \<Rightarrow> Some t | Edge_Removed k e sn \<Rightarrow> None)"

definition cascade_calls :: "heap \<Rightarrow> P2trEdge \<Rightarrow> P2trEdge \<Rightarrow> call list" where
  "cascade_calls s E M =
     (case tri E of
        None \<Rightarrow>
          (case tri M of None \<Rightarrow> []
           | Some t2 \<Rightarrow> [Triangle_Removed t2 (snapshot_of s)])
      | Some t1 \<Rightarrow>
          Triangle_Removed t1 (snapshot_of s) #
          (case tri M of None \<Rightarrow> []
           | Some t2 \<Rightarrow>
               if t2 = t1 then []
               else [Triangle_Removed t2
                      \<lparr>seen_points = points s,
                       seen_edges = clear_refs (bound_edges s (Some t1)) (edges s),
                       seen_triangles = (triangles s)(t1 := None)\<rparr>]))"

definition remove_cascade :: "heap \<Rightarrow> edge_ptr \<Rightarrow> P2trEdge \<Rightarrow> error + heap" where
  "remove_cascade s self E =
     ebind (if tri E \<noteq> None then p2tr_triangle_remove s (the (tri E)) else Inr s) (\<lambda>s1.
     ebind (edge_at s1 self) (\<lambda>E1.
     ebind (edge_at s1 (mirror E1)) (\<lambda>M1.
       if tri M1 \<noteq> None then p2tr_triangle_remove s1 (the (tri M1)) else Inr s1)))"

definition remove_tombstone ::
  "heap \<Rightarrow> edge_ptr \<Rightarrow> point_ptr option \<Rightarrow> point_ptr option \<Rightarrow> error + heap" where
  "remove_tombstone s2 self start end' =
     ebind (p2tr_point_remove_edge s2 start self) (\<lambda>s3.
     ebind (edge_at s3 self) (\<lambda>E3.
     ebind (p2tr_point_remove_edge s3 end' (mirror E3)) (\<lambda>s4.
     ebind (edge_at s4 self) (\<lambda>E4.
     let s5 = put_edge s4 self (E4\<lparr>e_end := None\<rparr>) in
     ebind (edge_at s5 self) (\<lambda>E5.
     ebind (edge_at s5 (mirror E5)) (\<lambda>M5.
     let s6 = put_edge s5 (mirror E5) (M5\<lparr>e_end := None\<rparr>) in
     ebind (p2tr_point_unref s6 start) (\<lambda>s7.
       p2tr_point_unref s7 end')))))))"

definition remove_notify :: "heap \<Rightarrow> edge_ptr \<Rightarrow> mesh_ptr option \<Rightarrow> error + heap" where
  "remove_notify s8 self mesh' =
     (if mesh' \<noteq> None then
        ebind (edge_at s8 self) (\<lambda>E8.
          Inr (p2tr_mesh_on_edge_removed
                (p2tr_mesh_on_edge_removed s8 (the mesh') self) (the mesh') (mirror E8)))
      else Inr s8)"

text \<open>
  What the tombstoning part does to the point heap (\<open>detach\<close> an edge from a point's
  incident set, \<open>release\<close> one reference of a point), and the two calls of the hook.
\<close>

definition detach :: "point_ptr \<Rightarrow> edge_ptr \<Rightarrow> (point_ptr \<rightharpoonup> P2trPoint) \<Rightarrow> (point_ptr \<rightharpoonup> P2trPoint)" where
  "detach p x h =
     (case h p of None \<Rightarrow> h
      | Some P \<Rightarrow> h(p \<mapsto> P\<lparr>outgoing_edges := outgoing_edges P - {x}\<rparr>))"

definition release :: "point_ptr \<Rightarrow> (point_ptr \<rightharpoonup> P2trPoint) \<Rightarrow> (point_ptr \<rightharpoonup> P2trPoint)" where
  "release p h =
     (case h p of None \<Rightarrow> h
      | Some P \<Rightarrow>
          if p_refcount P - 1 = 0 then h(p := None)
          else h(p \<mapsto> P\<lparr>p_refcount := p_refcount P - 1\<rparr>))"

definition notify_both :: "mesh_ptr option \<Rightarrow> edge_ptr \<Rightarrow> edge_ptr \<Rightarrow> heap \<Rightarrow> heap" where
  "notify_both k e m s =
     (case k of None \<Rightarrow> s
      | Some j \<Rightarrow> p2tr_mesh_on_edge_removed (p2tr_mesh_on_edge_removed s j e) j m)"

subsection \<open>Example heaps\<close>

definition pt :: "real \<Rightarrow> real \<Rightarrow> P2trPoint" where
  "pt a b = \<lparr>p_c = \<lparr>v_x = a, v_y = b\<rparr>, outgoing_edges = {}, p_refcount = 1, mesh = Some 0\<rparr>"

definition heap0 :: heap where
  "heap0 = \<lparr>points = [0 \<mapsto> pt 0 0, 1 \<mapsto> pt 1 0, 2 \<mapsto> pt 1 1, 3 \<mapsto> pt 2 0],
     edges = Map.empty, triangles = Map.empty, next_edge = 0, calls = []\<rparr>"

text \<open>The heap a call of \<^verbatim>\<open>p2tr_edge_new\<close> leaves behind.\<close>

definition heap_after :: "error + (edge_ptr \<times> heap) \<Rightarrow> heap" where
  "heap_after r = (case r of Inl err \<Rightarrow> heap0 | Inr (e, s) \<Rightarrow> s)"

text \<open>
  \<open>heap1\<close>: edge 0 from \<open>(0,0)\<close> to \<open>(1,0)\<close> and its mirror 1.
  \<open>heap2\<close>: in addition edge 2 from \<open>(1,0)\<close> to \<open>(1,1)\<close> and its mirror 3.
  \<open>heap3\<close>: edge 0 from \<open>(0,0)\<close> to \<open>(2,0)\<close> and its mirror 1.
\<close>

definition heap1 :: heap where
  "heap1 = heap_after (p2tr_edge_new heap0 (Some 0) (Some 1) False)"

definition heap2 :: heap where
  "heap2 = heap_after (p2tr_edge_new heap1 (Some 1) (Some 2) False)"

definition heap3 :: heap where
  "heap3 = heap_after (p2tr_edge_new heap0 (Some 0) (Some 3) False)"

text \<open>
  \<open>heap2b\<close>: \<open>heap2\<close> with the edge 4 from \<open>(1,1)\<close> to \<open>(0,0)\<close> and its mirror 5.
  \<open>heapT\<close>: \<open>heap2b\<close> with the triangle 0 bounded by the edges 0, 2 and 4.
  \<open>heap4\<close>: a degenerate edge from the point 0 to itself.
  \<open>heap1r\<close>: \<open>heap1\<close> after the removal of edge 0.
\<close>

definition heap2b :: heap where
  "heap2b = heap_after (p2tr_edge_new heap2 (Some 2) (Some 0) False)"

definition example_triangle :: "heap \<Rightarrow> tri_ptr \<Rightarrow> edge_ptr list \<Rightarrow> heap" where
  "example_triangle s t es =
     s\<lparr>edges := (\<lambda>x. if x \<in> set es then map_option (\<lambda>X. X\<lparr>tri := Some t\<rparr>) (edges s x)
                      else edges s x),
       triangles := (triangles s)(t \<mapsto> \<lparr>tr_edges = es\<rparr>)\<rparr>"

definition heapT :: heap where
  "heapT = example_triangle heap2b 0 [0, 2, 4]"

definition heap4 :: heap where
  "heap4 = heap_after (p2tr_edge_new heap0 (Some 0) (Some 0) False)"

definition heap1r :: heap where
  "heap1r = (case p2tr_edge_remove heap1 0 of Inl err \<Rightarrow> heap0 | Inr s \<Rightarrow> s)"



section \<open>Properties\<close>

subsection \<open>Auxiliary facts\<close>

lemma ebind_Inr [simp]: "ebind (Inr v) f = f v"
  by (simp add: ebind_def)

lemma ebind_Inl [simp]: "ebind (Inl e) f = Inl e"
  by (simp add: ebind_def)

lemma ebind_assoc: "ebind (ebind r f) g = ebind r (\<lambda>x. ebind (f x) g)"
  by (cases r) simp_all

lemma p2tr_edge_remove_phases:
  "p2tr_edge_remove s self =
     ebind (edge_at s self) (\<lambda>E.
       if e_end E = None then Inr s
       else
         ebind (p2tr_edge_get_mesh s self) (\<lambda>mesh'.
         ebind (P2TR_EDGE_START s self) (\<lambda>start.
         ebind (remove_cascade s self E) (\<lambda>s2.
         ebind (remove_tombstone s2 self start (e_end E)) (\<lambda>s8.
           remove_notify s8 self mesh')))))"
  unfolding p2tr_edge_remove_def remove_cascade_def remove_tombstone_def remove_notify_def Let_def
    ebind_assoc
  by (rule refl)

lemma clear_refs_dom [simp]: "(clear_refs X h y = None) = (h y = None)"
  by (simp add: clear_refs_def)

lemma clear_refs_Some: "h x = Some E \<Longrightarrow>
   clear_refs X h x = Some (if x \<in> X then E\<lparr>tri := None\<rparr> else E)"
  by (simp add: clear_refs_def)

lemma clear_tri_effect:
  "list_all (\<lambda>y. edges s y \<noteq> None) es \<Longrightarrow>
   clear_tri s es = Inr (s\<lparr>edges := clear_refs (set es) (edges s)\<rparr>)"
proof (induction es arbitrary: s)
  case Nil
  then show ?case by (simp add: clear_refs_def)
next
  case (Cons a es)
  from Cons.prems obtain A where A: "edges s a = Some A" by auto
  have all: "list_all (\<lambda>y. edges (put_edge s a (A\<lparr>tri := None\<rparr>)) y \<noteq> None) es"
    using Cons.prems by (simp add: put_edge_def list_all_iff)
  have eq: "clear_refs (set es) ((edges s)(a \<mapsto> A\<lparr>tri := None\<rparr>)) = clear_refs (insert a (set es)) (edges s)"
    using A by (auto simp: clear_refs_def fun_eq_iff)
  have "clear_tri s (a # es) = clear_tri (put_edge s a (A\<lparr>tri := None\<rparr>)) es"
    using A by (simp add: edge_at_def)
  also have "\<dots> = Inr (put_edge s a (A\<lparr>tri := None\<rparr>)
      \<lparr>edges := clear_refs (set es) (edges (put_edge s a (A\<lparr>tri := None\<rparr>)))\<rparr>)"
    by (rule Cons.IH [OF all])
  also have "\<dots> = Inr (s\<lparr>edges := clear_refs (set (a # es)) (edges s)\<rparr>)"
    unfolding put_edge_def by (simp add: eq del: fun_upd_apply)
  finally show ?case .
qed

lemma triangle_remove_effect:
  assumes "triangles s t = Some T" "list_all (\<lambda>y. edges s y \<noteq> None) (tr_edges T)"
  shows "p2tr_triangle_remove s t =
     Inr (s\<lparr>edges := clear_refs (set (tr_edges T)) (edges s),
            triangles := (triangles s)(t := None),
            calls := calls s @ [Triangle_Removed t (snapshot_of s)]\<rparr>)"
  using assms by (simp add: p2tr_triangle_remove_def triangle_at_def clear_tri_effect)

lemma tri_ok_all: "tri_ok s t \<Longrightarrow> triangles s t = Some T \<Longrightarrow>
   list_all (\<lambda>y. edges s y \<noteq> None) (tr_edges T)"
  by (auto simp: tri_ok_def list_all_iff split: option.splits)

lemma tri_ok_bound: "tri_ok s t \<Longrightarrow> triangles s t = Some T \<Longrightarrow> y \<in> set (tr_edges T) \<Longrightarrow>
   edges s y = Some Y \<Longrightarrow> tri Y = Some t"
  by (auto simp: tri_ok_def list_all_iff split: option.splits)

lemma clear_refs_empty [simp]: "clear_refs {} h = h"
  by (simp add: clear_refs_def)

lemma clear_refs_union: "clear_refs Y (clear_refs X h) = clear_refs (X \<union> Y) h"
  by (auto simp: clear_refs_def fun_eq_iff map_option.compositionality comp_def)

lemma bound_okD:
  assumes "bound_ok s x" "edges s x = Some X" "tri X = Some t"
  shows "\<exists>T. triangles s t = Some T \<and> x \<in> set (tr_edges T) \<and> tri_ok s t"
  using assms by (auto simp: bound_ok_def split: option.splits)

lemma cascade_effect:
  assumes E: "edges s e = Some E" and M: "edges s (mirror E) = Some M"
    and be: "bound_ok s e" and bm: "bound_ok s (mirror E)"
  shows "remove_cascade s e E =
     Inr (s\<lparr>edges := clear_refs (bound_edges s (tri E) \<union> bound_edges s (tri M)) (edges s),
            triangles := (\<lambda>t. if Some t = tri E \<or> Some t = tri M then None else triangles s t),
            calls := calls s @ cascade_calls s E M\<rparr>)"
proof (cases "tri E")
  case None
  note tE = None
  show ?thesis
  proof (cases "tri M")
    case None
    then show ?thesis using tE E M
      by (simp add: remove_cascade_def edge_at_def bound_edges_def cascade_calls_def)
  next
    case (Some t2)
    from bound_okD [OF bm M Some] obtain T2 where
      T2: "triangles s t2 = Some T2" "mirror E \<in> set (tr_edges T2)" "tri_ok s t2" by blast
    have "(\<lambda>t. if t = t2 then None else triangles s t) = (triangles s)(t2 := None)"
      by (simp add: fun_eq_iff)
    then show ?thesis using tE E M Some T2 triangle_remove_effect [OF T2(1) tri_ok_all [OF T2(3) T2(1)]]
      by (simp add: remove_cascade_def edge_at_def bound_edges_def cascade_calls_def)
  qed
next
  case (Some t1)
  from bound_okD [OF be E Some] obtain T1 where
    T1: "triangles s t1 = Some T1" "e \<in> set (tr_edges T1)" "tri_ok s t1" by blast
  define s1 where "s1 = s\<lparr>edges := clear_refs (set (tr_edges T1)) (edges s),
     triangles := (triangles s)(t1 := None),
     calls := calls s @ [Triangle_Removed t1 (snapshot_of s)]\<rparr>"
  have r1: "p2tr_triangle_remove s t1 = Inr s1"
    unfolding s1_def by (rule triangle_remove_effect [OF T1(1) tri_ok_all [OF T1(3) T1(1)]])
  have E1: "edges s1 e = Some (E\<lparr>tri := None\<rparr>)"
    using E T1(2) by (simp add: s1_def clear_refs_Some)
  have M1: "edges s1 (mirror E) = Some (if mirror E \<in> set (tr_edges T1) then M\<lparr>tri := None\<rparr> else M)"
    using M by (simp add: s1_def clear_refs_Some)
  have step: "remove_cascade s e E =
     (if mirror E \<notin> set (tr_edges T1) \<and> tri M \<noteq> None then p2tr_triangle_remove s1 (the (tri M)) else Inr s1)"
    using Some r1 E1 M1 by (cases "tri M") (simp_all add: remove_cascade_def edge_at_def)
  show ?thesis
  proof (cases "mirror E \<notin> set (tr_edges T1) \<and> tri M \<noteq> None")
    case True
    then obtain t2 where t2: "tri M = Some t2" and notin: "mirror E \<notin> set (tr_edges T1)" by auto
    from bound_okD [OF bm M t2] obtain T2 where
      T2: "triangles s t2 = Some T2" "mirror E \<in> set (tr_edges T2)" "tri_ok s t2" by blast
    have ne: "t2 \<noteq> t1" using T1(1) T2(1,2) notin by auto
    have T2': "triangles s1 t2 = Some T2" using T2(1) ne by (simp add: s1_def)
    have all2: "list_all (\<lambda>y. edges s1 y \<noteq> None) (tr_edges T2)"
      using tri_ok_all [OF T2(3) T2(1)] by (simp add: s1_def)
    have "(\<lambda>t. if t = t1 \<or> t = t2 then None else triangles s t) = (triangles s)(t1 := None, t2 := None)"
      by (simp add: fun_eq_iff)
    then show ?thesis
      using step True t2 Some T1(1) T2(1) ne triangle_remove_effect [OF T2' all2]
      by (simp add: s1_def bound_edges_def clear_refs_union cascade_calls_def snapshot_of_def)
  next
    case False
    have same: "tri M = None \<or> tri M = Some t1"
    proof (cases "tri M")
      case None
      then show ?thesis by simp
    next
      case (Some t2)
      with False have "mirror E \<in> set (tr_edges T1)" by simp
      from tri_ok_bound [OF T1(3) T1(1) this M] Some show ?thesis by simp
    qed
    have un: "bound_edges s (tri E) \<union> bound_edges s (tri M) = set (tr_edges T1)"
      using same Some T1(1) by (auto simp: bound_edges_def)
    have tr: "(\<lambda>t. if Some t = tri E \<or> Some t = tri M then None else triangles s t) = (triangles s)(t1 := None)"
      using same Some by (auto simp: fun_eq_iff)
    have cs: "cascade_calls s E M = [Triangle_Removed t1 (snapshot_of s)]"
      using same Some by (auto simp: cascade_calls_def)
    have "remove_cascade s e E = Inr s1" using step False by (simp only: if_False)
    then show ?thesis unfolding un tr cs s1_def .
  qed
qed

lemma tombstone_effect:
  assumes E: "edges s e = Some E" and M: "edges s (mirror E) = Some M"
    and A: "points s a = Some A" and B: "points s b = Some B"
    and rc: "a = b \<Longrightarrow> p_refcount A \<noteq> 1"
  shows "remove_tombstone s e (Some a) (Some b) =
     Inr (s\<lparr>points := release b (release a (detach b (mirror E) (detach a e (points s)))),
            edges := (edges s)(e \<mapsto> E\<lparr>e_end := None\<rparr>,
               mirror E \<mapsto> (if mirror E = e then E\<lparr>e_end := None\<rparr> else M)\<lparr>e_end := None\<rparr>)\<rparr>)"
proof (cases "a = b")
  case True
  with rc have "p_refcount A - 1 \<noteq> 0" by simp
  with True show ?thesis using assms
    by (simp add: remove_tombstone_def p2tr_point_remove_edge_def p2tr_point_unref_def
        point_at_def edge_at_def put_point_def put_edge_def detach_def release_def Let_def)
next
  case False
  then show ?thesis using assms
    by (simp add: remove_tombstone_def p2tr_point_remove_edge_def p2tr_point_unref_def
        point_at_def edge_at_def put_point_def put_edge_def detach_def release_def Let_def)
qed


lemma cascade_edge:
  assumes X: "edges s x = Some X" and bx: "bound_ok s x"
    and sub: "bound_edges s (tri X) \<subseteq> Y"
  shows "clear_refs Y (edges s) x = Some (X\<lparr>tri := None\<rparr>)"
proof (cases "tri X")
  case None
  then show ?thesis using X by (simp add: clear_refs_Some)
next
  case (Some t)
  from bound_okD [OF bx X Some] sub Some have "x \<in> Y" by (auto simp: bound_edges_def)
  then show ?thesis using X by (simp add: clear_refs_Some)
qed

lemma remove_effect:
  assumes E: "edges s e = Some E" and M: "edges s (mirror E) = Some M"
    and b: "e_end E = Some b" and a: "e_end M = Some a"
    and A: "points s a = Some A" and B: "points s b = Some B"
    and rc: "a = b \<Longrightarrow> p_refcount A \<noteq> 1"
    and be: "bound_ok s e" and bm: "bound_ok s (mirror E)"
  shows "p2tr_edge_remove s e =
     Inr (notify_both (mesh B) e (mirror E)
       (s\<lparr>triangles := (\<lambda>t. if Some t = tri E \<or> Some t = tri M then None else triangles s t),
          calls := calls s @ cascade_calls s E M,
          points := release b (release a (detach b (mirror E) (detach a e (points s)))),
          edges := (clear_refs (bound_edges s (tri E) \<union> bound_edges s (tri M)) (edges s))
             (e \<mapsto> E\<lparr>tri := None, e_end := None\<rparr>,
              mirror E \<mapsto> M\<lparr>tri := None, e_end := None\<rparr>)\<rparr>))"
proof -
  define s2 where "s2 = s\<lparr>edges := clear_refs (bound_edges s (tri E) \<union> bound_edges s (tri M)) (edges s),
            triangles := (\<lambda>t. if Some t = tri E \<or> Some t = tri M then None else triangles s t),
            calls := calls s @ cascade_calls s E M\<rparr>"
  have casc: "remove_cascade s e E = Inr s2"
    unfolding s2_def by (rule cascade_effect [OF E M be bm])
  have E2: "edges s2 e = Some (E\<lparr>tri := None\<rparr>)"
    unfolding s2_def using cascade_edge [OF E be, of "bound_edges s (tri E) \<union> bound_edges s (tri M)"]
    by simp
  have M2: "edges s2 (mirror (E\<lparr>tri := None\<rparr>)) = Some (M\<lparr>tri := None\<rparr>)"
    unfolding s2_def using cascade_edge [OF M bm, of "bound_edges s (tri E) \<union> bound_edges s (tri M)"]
    by simp
  have P2: "points s2 a = Some A" "points s2 b = Some B"
    using A B by (simp_all add: s2_def)
  have self: "mirror E = e \<Longrightarrow> M = E" using E M by simp
  have tomb: "remove_tombstone s2 e (Some a) (Some b) =
     Inr (s2\<lparr>points := release b (release a (detach b (mirror E) (detach a e (points s2)))),
            edges := (edges s2)(e \<mapsto> E\<lparr>tri := None, e_end := None\<rparr>,
               mirror E \<mapsto> M\<lparr>tri := None, e_end := None\<rparr>)\<rparr>)"
    using tombstone_effect [OF E2 M2 P2 rc] self by (cases "mirror E = e") simp_all
  show ?thesis
    using E M a b B casc tomb self
    by (simp add: p2tr_edge_remove_phases edge_at_def p2tr_edge_get_mesh_def
        p2tr_point_get_mesh_def point_at_def P2TR_EDGE_START_def remove_notify_def
        notify_both_def s2_def split: option.splits)
qed

lemma remove_removed:
  "edges s e = Some E \<Longrightarrow> e_end E = None \<Longrightarrow> p2tr_edge_remove s e = Inr s"
  by (simp add: p2tr_edge_remove_def edge_at_def)

lemma notify_both_frame [simp]:
  "points (notify_both k e m s) = points s"
  "edges (notify_both k e m s) = edges s"
  "triangles (notify_both k e m s) = triangles s"
  by (simp_all add: notify_both_def p2tr_mesh_on_edge_removed_def split: option.splits)



lemma clear_refs_end [simp]: "map_option e_end (clear_refs X h x) = map_option e_end (h x)"
  by (cases "h x") (simp_all add: clear_refs_def)

lemma call_triangle_simps [simp]:
  "call_triangle (Triangle_Removed t sn) = Some t"
  "call_triangle (Edge_Removed k e sn) = None"
  by (simp_all add: call_triangle_def)

lemma cascade_calls_triangles:
  "list_all (\<lambda>c. call_triangle c \<noteq> None) (cascade_calls s E M)"
  by (simp add: cascade_calls_def split: option.splits)

lemma cascade_calls_once:
  assumes "tri E = Some t \<or> tri M = Some t"
  shows "\<exists>sn. filter (\<lambda>c. call_triangle c = Some t) (cascade_calls s E M) = [Triangle_Removed t sn]
     \<and> seen_points sn = points s
     \<and> seen_triangles sn t = triangles s t
     \<and> (\<forall>x. map_option e_end (seen_edges sn x) = map_option e_end (edges s x))"
  using assms
  by (auto simp: cascade_calls_def snapshot_of_def split: option.splits)

lemma notify_both_calls:
  "calls (notify_both (Some k) e m s) =
     calls s @ [Edge_Removed k e (snapshot_of s), Edge_Removed k m (snapshot_of s)]"
  "snapshot_of (notify_both j e m s) = snapshot_of s"
  by (simp_all add: notify_both_def p2tr_mesh_on_edge_removed_def snapshot_of_def
      split: option.splits)

lemma sqrt_half_sum:
  "sqrt ((u / 2) * (u / 2) + (w / 2) * (w / 2)) = sqrt (u * u + w * w) / 2" for u w :: real
proof -
  have a: "(u / 2) * (u / 2) + (w / 2) * (w / 2) = (u * u + w * w) / 4" by (simp add: field_simps)
  have "sqrt ((u * u + w * w) / 4) = sqrt (u * u + w * w) / sqrt 4" by (rule real_sqrt_divide)
  also have "sqrt 4 = (2::real)" by simp
  finally show ?thesis unfolding a by simp
qed

lemma norm_to_midpoint:
  "sqrt ((p - (p + q) / 2) * (p - (p + q) / 2) + (r - (r + t) / 2) * (r - (r + t) / 2))
     = sqrt ((p - q) * (p - q) + (r - t) * (r - t)) / 2" for p q r t :: real
proof -
  have "p - (p + q) / 2 = (p - q) / 2" "r - (r + t) / 2 = (r - t) / 2"
    by (simp_all add: field_simps)
  then show ?thesis by (simp only: sqrt_half_sum)
qed

lemmas new_defs = p2tr_edge_new_def p2tr_edge_init_def g_slice_new_edge_def point_at_def
  edge_at_def put_edge_def put_point_def p2tr_point_ref_def p2tr_point_insert_edge_def

lemma heap1_new: "p2tr_edge_new heap0 (Some 0) (Some 1) False = Inr (0, heap1)"
  by (simp add: heap1_def heap_after_def new_defs heap0_def pt_def)

lemma heap1_points:
  "points heap1 0 = Some ((pt 0 0)\<lparr>outgoing_edges := {0}, p_refcount := 2\<rparr>)"
  "points heap1 1 = Some ((pt 1 0)\<lparr>outgoing_edges := {1}, p_refcount := 2\<rparr>)"
  "points heap1 2 = Some (pt 1 1)"
  by (simp_all add: heap1_def heap_after_def new_defs heap0_def pt_def)

lemma heap1_edges:
  "edges heap1 0 = Some \<lparr>e_end = Some 1, mirror = 1, constrained = False, tri = None,
      angle = 0, delaunay = False, refcount = 1\<rparr>"
  "edges heap1 1 = Some \<lparr>e_end = Some 0, mirror = 0, constrained = False, tri = None,
      angle = pi, delaunay = False, refcount = 0\<rparr>"
  by (simp_all add: heap1_def heap_after_def new_defs heap0_def pt_def atan2_def)

lemma heap1_rest:
  "next_edge heap1 = 2" "triangles heap1 = Map.empty" "calls heap1 = []"
  by (simp_all add: heap1_def heap_after_def new_defs heap0_def pt_def)

lemma heap2_new: "p2tr_edge_new heap1 (Some 1) (Some 2) False = Inr (2, heap2)"
  using heap1_points heap1_edges heap1_rest
  by (simp add: heap2_def heap_after_def new_defs)

lemma heap2_edges:
  "edges heap2 0 = Some \<lparr>e_end = Some 1, mirror = 1, constrained = False, tri = None,
      angle = 0, delaunay = False, refcount = 1\<rparr>"
  "edges heap2 1 = Some \<lparr>e_end = Some 0, mirror = 0, constrained = False, tri = None,
      angle = pi, delaunay = False, refcount = 0\<rparr>"
  "edges heap2 2 = Some \<lparr>e_end = Some 2, mirror = 3, constrained = False, tri = None,
      angle = pi / 2, delaunay = False, refcount = 1\<rparr>"
  "edges heap2 3 = Some \<lparr>e_end = Some 1, mirror = 2, constrained = False, tri = None,
      angle = - (pi / 2), delaunay = False, refcount = 0\<rparr>"
  using heap1_points heap1_edges heap1_rest
  by (simp_all add: heap2_def heap_after_def new_defs pt_def atan2_def)

lemma heap3_new: "p2tr_edge_new heap0 (Some 0) (Some 3) False = Inr (0, heap3)"
  by (simp add: heap3_def heap_after_def new_defs heap0_def pt_def)

lemma heap3_points:
  "points heap3 0 = Some ((pt 0 0)\<lparr>outgoing_edges := {0}, p_refcount := 2\<rparr>)"
  "points heap3 3 = Some ((pt 2 0)\<lparr>outgoing_edges := {1}, p_refcount := 2\<rparr>)"
  by (simp_all add: heap3_def heap_after_def new_defs heap0_def pt_def)

lemma heap3_edges:
  "edges heap3 0 = Some \<lparr>e_end = Some 3, mirror = 1, constrained = False, tri = None,
      angle = 0, delaunay = False, refcount = 1\<rparr>"
  "edges heap3 1 = Some \<lparr>e_end = Some 0, mirror = 0, constrained = False, tri = None,
      angle = pi, delaunay = False, refcount = 0\<rparr>"
  by (simp_all add: heap3_def heap_after_def new_defs heap0_def pt_def atan2_def)

lemma heap2_points:
  "points heap2 0 = Some ((pt 0 0)\<lparr>outgoing_edges := {0}, p_refcount := 2\<rparr>)"
  "points heap2 1 = Some ((pt 1 0)\<lparr>outgoing_edges := {1, 2}, p_refcount := 3\<rparr>)"
  "points heap2 2 = Some ((pt 1 1)\<lparr>outgoing_edges := {3}, p_refcount := 2\<rparr>)"
  using heap1_points heap1_edges heap1_rest
  by (auto simp: heap2_def heap_after_def new_defs pt_def)

lemma heap2_rest:
  "next_edge heap2 = 4" "triangles heap2 = Map.empty" "calls heap2 = []"
  using heap1_points heap1_edges heap1_rest
  by (simp_all add: heap2_def heap_after_def new_defs)

lemma heap2b_points:
  "points heap2b 0 = Some ((pt 0 0)\<lparr>outgoing_edges := {0, 5}, p_refcount := 3\<rparr>)"
  "points heap2b 1 = Some ((pt 1 0)\<lparr>outgoing_edges := {1, 2}, p_refcount := 3\<rparr>)"
  "points heap2b 2 = Some ((pt 1 1)\<lparr>outgoing_edges := {3, 4}, p_refcount := 3\<rparr>)"
  using heap2_points heap2_edges heap2_rest
  by (auto simp: heap2b_def heap_after_def new_defs pt_def)

lemma heap2b_edges:
  "edges heap2b 0 = Some \<lparr>e_end = Some 1, mirror = 1, constrained = False, tri = None,
      angle = 0, delaunay = False, refcount = 1\<rparr>"
  "edges heap2b 1 = Some \<lparr>e_end = Some 0, mirror = 0, constrained = False, tri = None,
      angle = pi, delaunay = False, refcount = 0\<rparr>"
  "edges heap2b 2 = Some \<lparr>e_end = Some 2, mirror = 3, constrained = False, tri = None,
      angle = pi / 2, delaunay = False, refcount = 1\<rparr>"
  "edges heap2b 3 = Some \<lparr>e_end = Some 1, mirror = 2, constrained = False, tri = None,
      angle = - (pi / 2), delaunay = False, refcount = 0\<rparr>"
  "edges heap2b 4 = Some \<lparr>e_end = Some 0, mirror = 5, constrained = False, tri = None,
      angle = atan2 (- 1) (- 1), delaunay = False, refcount = 1\<rparr>"
  "edges heap2b 5 = Some \<lparr>e_end = Some 2, mirror = 4, constrained = False, tri = None,
      angle = atan2 1 1, delaunay = False, refcount = 0\<rparr>"
  using heap2_points heap2_edges heap2_rest
  by (simp_all add: heap2b_def heap_after_def new_defs pt_def)

lemma heapT_edges:
  "edges heapT 0 = Some \<lparr>e_end = Some 1, mirror = 1, constrained = False, tri = Some 0,
      angle = 0, delaunay = False, refcount = 1\<rparr>"
  "edges heapT 1 = Some \<lparr>e_end = Some 0, mirror = 0, constrained = False, tri = None,
      angle = pi, delaunay = False, refcount = 0\<rparr>"
  "edges heapT 2 = Some \<lparr>e_end = Some 2, mirror = 3, constrained = False, tri = Some 0,
      angle = pi / 2, delaunay = False, refcount = 1\<rparr>"
  "edges heapT 4 = Some \<lparr>e_end = Some 0, mirror = 5, constrained = False, tri = Some 0,
      angle = atan2 (- 1) (- 1), delaunay = False, refcount = 1\<rparr>"
  using heap2b_edges by (simp_all add: heapT_def example_triangle_def)

lemma heapT_rest:
  "triangles heapT 0 = Some \<lparr>tr_edges = [0, 2, 4]\<rparr>"
  "points heapT = points heap2b"
  by (simp_all add: heapT_def example_triangle_def)

lemma heapT_bound: "bound_ok heapT 0" "bound_ok heapT 1"
  using heapT_edges heapT_rest by (simp_all add: bound_ok_def tri_ok_def)

lemma heap1_bound: "bound_ok heap1 0" "bound_ok heap1 1"
  using heap1_edges by (simp_all add: bound_ok_def)

lemma heap1r_remove: "p2tr_edge_remove heap1 0 = Inr heap1r"
  using remove_effect [of heap1 0 "the (edges heap1 0)" "the (edges heap1 1)" 1 0
      "the (points heap1 0)" "the (points heap1 1)"]
    heap1_edges heap1_points heap1_bound
  by (simp add: heap1r_def pt_def)

lemma heap1r_removed: "p2tr_edge_is_removed heap1r 0 = Inr True"
  using remove_effect [of heap1 0 "the (edges heap1 0)" "the (edges heap1 1)" 1 0
      "the (points heap1 0)" "the (points heap1 1)"]
    heap1_edges heap1_points heap1_bound
  by (simp add: heap1r_def pt_def p2tr_edge_is_removed_def edge_at_def)

lemma heap1r_calls:
  "calls heap1r = [Edge_Removed 0 0 (snapshot_of heap1r), Edge_Removed 0 1 (snapshot_of heap1r)]"
  using remove_effect [of heap1 0 "the (edges heap1 0)" "the (edges heap1 1)" 1 0
      "the (points heap1 0)" "the (points heap1 1)"]
    heap1_edges heap1_points heap1_bound heap1_rest
  by (simp add: heap1r_def pt_def notify_both_calls cascade_calls_def)





lemma scan_store_point:
  "\<not> (0 < scan_count p \<and> scan_count p \<noteq> 2) \<Longrightarrow> scan_store [0, 0] p = point_buffer p"
  by (auto simp: scan_store_def point_buffer_def scan_count_def split: scan.splits list.splits)

lemma read_loop_colors:
  "read_loop scans st = Inr res \<Longrightarrow> r_colors st = Some cs \<Longrightarrow>
   r_colors res =
     Some (cs @ map (\<lambda>(p, c). map Some (point_buffer p) @ [None]) (color_lines scans))"
proof (induction scans arbitrary: st cs)
  case Nil
  then show ?case by (simp add: color_lines_def)
next
  case (Cons pc scans)
  obtain p c where pc: "pc = (p, c)" by (cases pc)
  have len: "length (point_buffer p) = 2"
    by (simp add: point_buffer_def split: scan.splits list.splits)
  have app: "g_array_append_val 3 cs (point_buffer p) = cs @ [map Some (point_buffer p) @ [None]]"
    using len by (simp add: g_array_append_val_def numeral_3_eq_3)
  show ?case
    using Cons.prems Cons.IH pc app
    by (auto simp: Let_def color_lines_def scan_store_point split: if_splits)
qed

lemma free_after_remove:
  "p2tr_edge_remove s e = Inr s1 \<Longrightarrow> p2tr_edge_free s e = Inl Invalid_Access"
  by (cases "edges s1 e") (simp_all add: p2tr_edge_free_def g_slice_free_edge_def edge_at_def)

lemma free_never_returns: "\<exists>err. p2tr_edge_free s e = Inl err"
proof (cases "p2tr_edge_remove s e")
  case (Inl err)
  then show ?thesis by (simp add: p2tr_edge_free_def)
next
  case (Inr s1)
  then show ?thesis by (simp add: free_after_remove)
qed

lemma unref_keeps_pair:
  assumes "edges s e = Some E" "edges s (mirror E) = Some M" "mirror E \<noteq> e"
    "refcount E \<noteq> 1 \<or> refcount M \<noteq> 0"
  shows "p2tr_edge_unref s e = Inr (put_edge s e (E\<lparr>refcount := refcount E - 1\<rparr>))"
  using assms
  by (auto simp: p2tr_edge_unref_def edge_at_def put_edge_def Let_def)

lemma unref_enters_free:
  assumes "edges s e = Some E" "edges s (mirror E) = Some M" "mirror E \<noteq> e"
    "refcount E = 1" "refcount M = 0"
  shows "p2tr_edge_unref s e = p2tr_edge_free (put_edge s e (E\<lparr>refcount := 0\<rparr>)) e"
  using assms
  by (simp add: p2tr_edge_unref_def edge_at_def put_edge_def Let_def)

subsection \<open>The turning angle\<close>

lemma angle_between_consecutive:
  assumes "edges s e1 = Some E1" "edges s e2 = Some E2" "edges s (mirror E2) = Some M2"
    "e_end E1 = e_end M2"
  shows "p2tr_edge_angle_between s e1 e2 =
     Inr (if pi - angle E1 + angle E2 > 2 * pi then pi - angle E1 + angle E2 - 2 * pi
          else pi - angle E1 + angle E2)"
  using assms
  by (simp add: p2tr_edge_angle_between_def edge_at_def P2TR_EDGE_START_def Let_def)

lemma angle_between_range:
  assumes "edges s e1 = Some E1" "edges s e2 = Some E2" "edges s (mirror E2) = Some M2"
    "e_end E1 = e_end M2"
    "- pi < angle E1" "angle E1 \<le> pi" "- pi < angle E2" "angle E2 \<le> pi"
  shows "\<exists>w. p2tr_edge_angle_between s e1 e2 = Inr w \<and> - pi < w \<and> w \<le> 2 * pi"
  using assms by (simp add: angle_between_consecutive)

text \<open>
  C1. For consecutive edges the result is meant to be the turning angle
  \<open>\<pi> - angle e1 + angle e2\<close> brought back into \<open>(-\<pi>, \<pi>]\<close>, and \<open>-\<pi>/2\<close> for the edges
  \<open>(0,0) \<rightarrow> (1,0)\<close> and \<open>(1,0) \<rightarrow> (1,1)\<close>. The code subtracts \<open>2\<pi>\<close> only above \<open>2\<pi>\<close>: for
  these two edges, built by \<^verbatim>\<open>p2tr_edge_new\<close>, it returns \<open>3\<pi>/2\<close>, which lies outside
  \<open>(-\<pi>, \<pi>]\<close>.
\<close>

theorem angle_between_right_turn:
  "p2tr_edge_new heap0 (Some 0) (Some 1) False = Inr (0, heap1)
   \<and> p2tr_edge_new heap1 (Some 1) (Some 2) False = Inr (2, heap2)
   \<and> p2tr_edge_angle_between heap2 0 2 = Inr (3 * pi / 2)
   \<and> \<not> (3 * pi / 2 \<le> pi) \<and> 3 * pi / 2 \<noteq> - (pi / 2)"
proof (intro conjI)
  show "p2tr_edge_new heap0 (Some 0) (Some 1) False = Inr (0, heap1)"
    by (rule heap1_new)
  show "p2tr_edge_new heap1 (Some 1) (Some 2) False = Inr (2, heap2)"
    by (rule heap2_new)
  show "p2tr_edge_angle_between heap2 0 2 = Inr (3 * pi / 2)"
    using heap2_edges by (simp add: angle_between_consecutive [of heap2 0 _ 2])
  show "\<not> (3 * pi / 2 \<le> pi)" by simp
  show "3 * pi / 2 \<noteq> - (pi / 2)" by simp
qed

text \<open>
  C7. When the end point of \<open>e1\<close> is not the start point of \<open>e2\<close>,
  \<^verbatim>\<open>p2tr_edge_angle_between\<close> raises the programmatic exception and returns no value.
\<close>

theorem angle_between_not_consecutive:
  assumes "edges s e1 = Some E1" "edges s e2 = Some E2" "edges s (mirror E2) = Some M2"
    "e_end E1 \<noteq> e_end M2"
  shows "p2tr_edge_angle_between s e1 e2 =
     Inl (Programmatic ''The end-point of the first edge isn't the end-point of the second edge!'')"
  using assms
  by (simp add: p2tr_edge_angle_between_def edge_at_def P2TR_EDGE_START_def
      p2tr_exception_programmatic_def)

theorem angle_between_not_consecutive_witness:
  "p2tr_edge_angle_between heap2 2 0 =
     Inl (Programmatic ''The end-point of the first edge isn't the end-point of the second edge!'')"
  using heap2_edges angle_between_not_consecutive [of heap2 2 _ 0]
  by simp

subsection \<open>The diametral circle\<close>

text \<open>
  C8. For an edge that is not removed, \<^verbatim>\<open>p2tr_edge_get_diametral_circle\<close> returns the
  circle whose center is the midpoint of the two end points and whose radius is half of
  what \<^verbatim>\<open>p2tr_edge_get_length\<close> returns.
\<close>

theorem diametral_circle_midpoint:
  assumes "edges s e = Some E" "e_end E = Some b" "points s b = Some B"
    "edges s (mirror E) = Some M" "e_end M = Some a" "points s a = Some A"
  shows "\<exists>C len. p2tr_edge_get_diametral_circle s e = Inr C
     \<and> p2tr_edge_get_length s e = Inr len
     \<and> v_x (center C) = (v_x (p_c A) + v_x (p_c B)) / 2
     \<and> v_y (center C) = (v_y (p_c A) + v_y (p_c B)) / 2
     \<and> radius C = len / 2"
  using assms
  by (simp add: p2tr_edge_get_diametral_circle_def p2tr_edge_get_length_def edge_at_def
      point_at_def P2TR_EDGE_START_def p2tr_vector2_center_def p2tr_vector2_sub_def
      p2tr_vector2_norm_def p2tr_math_length_sq2_def Let_def norm_to_midpoint add.commute)

theorem diametral_circle_midpoint_witness:
  "p2tr_edge_new heap0 (Some 0) (Some 3) False = Inr (0, heap3)
   \<and> (\<exists>C. p2tr_edge_get_diametral_circle heap3 0 = Inr C
        \<and> p2tr_edge_get_length heap3 0 = Inr 2
        \<and> center C = \<lparr>v_x = 1, v_y = 0\<rparr> \<and> radius C = 1)"
proof
  show "p2tr_edge_new heap0 (Some 0) (Some 3) False = Inr (0, heap3)"
    by (rule heap3_new)
  have len: "p2tr_edge_get_length heap3 0 = Inr 2"
    using heap3_edges heap3_points
    by (simp add: p2tr_edge_get_length_def edge_at_def point_at_def P2TR_EDGE_START_def
        p2tr_math_length_sq2_def pt_def)
  from diametral_circle_midpoint [OF heap3_edges(1) _ heap3_points(2) _ _ heap3_points(1)]
    heap3_edges
  obtain C where "p2tr_edge_get_diametral_circle heap3 0 = Inr C"
    "v_x (center C) = 1" "v_y (center C) = 0" "radius C = 1"
    using len by (auto simp: pt_def)
  then show "\<exists>C. p2tr_edge_get_diametral_circle heap3 0 = Inr C
        \<and> p2tr_edge_get_length heap3 0 = Inr 2
        \<and> center C = \<lparr>v_x = 1, v_y = 0\<rparr> \<and> radius C = 1"
    using len by (intro exI [of _ C]) simp
qed

subsection \<open>Construction\<close>

text \<open>
  C2 (amended). For points \<open>a\<close>, \<open>b\<close> of the heap, \<^verbatim>\<open>p2tr_edge_new\<close> returns an edge \<open>e\<close>
  whose mirror is another edge with mirror \<open>e\<close>; \<open>e\<close> ends at \<open>b\<close> and its mirror at \<open>a\<close>;
  the reference count of \<open>e\<close> is 1 and that of its mirror 0. Each direction stores the
  angle computed from its own start and end point: the mirror stores what the forward
  edge of \<^verbatim>\<open>p2tr_edge_new\<close> from \<open>b\<close> to \<open>a\<close> stores, so that for \<open>a = b\<close> both directions
  store the same angle. Nothing is said about the difference of the two angles.
\<close>

theorem edge_new_pair:
  assumes A: "points s a = Some A" and B: "points s b = Some B"
  shows "\<exists>e s' E M e2 s2 E2. p2tr_edge_new s (Some a) (Some b) c = Inr (e, s')
     \<and> edges s' e = Some E \<and> edges s' (mirror E) = Some M
     \<and> mirror E \<noteq> e \<and> mirror M = e
     \<and> e_end E = Some b \<and> e_end M = Some a
     \<and> refcount E = 1 \<and> refcount M = 0
     \<and> p2tr_edge_new s (Some b) (Some a) c = Inr (e2, s2)
     \<and> edges s2 e2 = Some E2 \<and> angle M = angle E2
     \<and> (a = b \<longrightarrow> angle M = angle E)"
  using assms by (auto simp: new_defs)

theorem edge_new_pair_witness:
  "\<exists>e s' E M e2 s2 E2. p2tr_edge_new heap0 (Some 0) (Some 1) False = Inr (e, s')
     \<and> edges s' e = Some E \<and> edges s' (mirror E) = Some M
     \<and> mirror E \<noteq> e \<and> mirror M = e
     \<and> e_end E = Some 1 \<and> e_end M = Some 0
     \<and> refcount E = 1 \<and> refcount M = 0
     \<and> p2tr_edge_new heap0 (Some 1) (Some 0) False = Inr (e2, s2)
     \<and> edges s2 e2 = Some E2 \<and> angle M = angle E2"
  using edge_new_pair [of heap0 0 "pt 0 0" 1 "pt 1 0" False]
  by (simp add: heap0_def pt_def)

text \<open>
  C2 as stated promises angles that differ by \<open>\<pi>\<close> for every pair of points; for the edge
  from the point 0 to itself both directions get the angle \<open>atan2 0 0 = 0\<close>.
\<close>

theorem edge_new_degenerate:
  "p2tr_edge_new heap0 (Some 0) (Some 0) False = Inr (0, heap4)
   \<and> map_option mirror (edges heap4 0) = Some 1
   \<and> map_option angle (edges heap4 0) = Some 0
   \<and> map_option angle (edges heap4 1) = Some 0
   \<and> \<bar>0 - 0\<bar> \<noteq> pi"
  by (simp add: heap4_def heap_after_def new_defs heap0_def pt_def atan2_def)

subsection \<open>Removal\<close>




text \<open>
  C4. When the mirror of \<open>e\<close> (or \<open>e\<close> itself) is bound to the triangle \<open>t\<close>,
  \<^verbatim>\<open>p2tr_edge_remove\<close> calls the removal of \<open>t\<close> exactly once, and the heap that call finds
  still holds \<open>t\<close>, the end references of both directions and the untouched points: the
  triangle goes before the edge is tombstoned and detached. Afterwards both directions
  are removed, \<open>t\<close> does not exist and neither direction has a bound triangle.
\<close>

theorem remove_cascades_triangle:
  assumes E: "edges s e = Some E" and M: "edges s (mirror E) = Some M"
    and b: "e_end E = Some b" and a: "e_end M = Some a"
    and A: "points s a = Some A" and B: "points s b = Some B"
    and rc: "a = b \<Longrightarrow> p_refcount A \<noteq> 1"
    and be: "bound_ok s e" and bm: "bound_ok s (mirror E)"
    and t: "tri M = Some t \<or> tri E = Some t"
  shows "\<exists>s' new sn. p2tr_edge_remove s e = Inr s'
     \<and> calls s' = calls s @ new
     \<and> filter (\<lambda>c. call_triangle c = Some t) new = [Triangle_Removed t sn]
     \<and> triangles s t \<noteq> None
     \<and> seen_triangles sn t = triangles s t
     \<and> seen_points sn = points s
     \<and> map_option e_end (seen_edges sn e) = Some (Some b)
     \<and> map_option e_end (seen_edges sn (mirror E)) = Some (Some a)
     \<and> p2tr_edge_is_removed s' e = Inr True
     \<and> p2tr_edge_is_removed s' (mirror E) = Inr True
     \<and> triangles s' t = None
     \<and> map_option tri (edges s' (mirror E)) = Some None
     \<and> map_option tri (edges s' e) = Some None"
proof -
  note eff = remove_effect [OF E M b a A B rc be bm]
  from t have t': "tri E = Some t \<or> tri M = Some t" by blast
  from cascade_calls_once [OF t', of s] obtain sn where sn:
    "filter (\<lambda>c. call_triangle c = Some t) (cascade_calls s E M) = [Triangle_Removed t sn]"
    "seen_points sn = points s" "seen_triangles sn t = triangles s t"
    "\<And>x. map_option e_end (seen_edges sn x) = map_option e_end (edges s x)"
    by blast
  have ex: "triangles s t \<noteq> None"
    using t bound_okD [OF bm M] bound_okD [OF be E] by auto
  define new where "new = cascade_calls s E M @
     (case mesh B of None \<Rightarrow> []
      | Some k \<Rightarrow> drop (length (calls s) + length (cascade_calls s E M))
           (calls (projr (p2tr_edge_remove s e))))"
  have c: "calls (projr (p2tr_edge_remove s e)) = calls s @ new"
    by (cases "mesh B")
      (simp_all add: eff new_def notify_both_def p2tr_mesh_on_edge_removed_def)
  have f: "filter (\<lambda>c. call_triangle c = Some t) new = [Triangle_Removed t sn]"
    by (cases "mesh B")
      (simp_all add: new_def sn(1) eff notify_both_def p2tr_mesh_on_edge_removed_def)
  have fin: "p2tr_edge_is_removed (projr (p2tr_edge_remove s e)) e = Inr True"
    "p2tr_edge_is_removed (projr (p2tr_edge_remove s e)) (mirror E) = Inr True"
    "triangles (projr (p2tr_edge_remove s e)) t = None"
    "map_option tri (edges (projr (p2tr_edge_remove s e)) (mirror E)) = Some None"
    "map_option tri (edges (projr (p2tr_edge_remove s e)) e) = Some None"
    using t by (auto simp: eff p2tr_edge_is_removed_def edge_at_def)
  have r: "p2tr_edge_remove s e = Inr (projr (p2tr_edge_remove s e))"
    by (simp add: eff)
  have ends: "map_option e_end (seen_edges sn e) = Some (Some b)"
    "map_option e_end (seen_edges sn (mirror E)) = Some (Some a)"
    using sn(4) E M a b by simp_all
  from r c f ex sn(2,3) ends fin show ?thesis by blast
qed

theorem remove_cascades_triangle_witness:
  "\<exists>s' new sn. p2tr_edge_remove heapT 1 = Inr s'
     \<and> calls s' = calls heapT @ new
     \<and> filter (\<lambda>c. call_triangle c = Some 0) new = [Triangle_Removed 0 sn]
     \<and> triangles heapT 0 = Some \<lparr>tr_edges = [0, 2, 4]\<rparr>
     \<and> seen_triangles sn 0 = triangles heapT 0
     \<and> seen_points sn = points heapT
     \<and> map_option e_end (seen_edges sn 1) = Some (Some 0)
     \<and> map_option e_end (seen_edges sn 0) = Some (Some 1)
     \<and> p2tr_edge_is_removed s' 1 = Inr True
     \<and> p2tr_edge_is_removed s' 0 = Inr True
     \<and> triangles s' 0 = None
     \<and> map_option tri (edges s' 0) = Some None
     \<and> map_option tri (edges s' 1) = Some None"
  using heapT_edges heapT_rest heapT_bound heap2b_points
    remove_cascades_triangle [of heapT 1 "the (edges heapT 1)" "the (edges heapT 0)" 0 1
      "the (points heapT 1)" "the (points heapT 0)" 0]
  by simp

text \<open>
  C6. \<^verbatim>\<open>p2tr_edge_remove\<close> on an edge that is already removed returns the heap it was
  given.
\<close>

theorem remove_idempotent:
  "p2tr_edge_is_removed s e = Inr True \<Longrightarrow> p2tr_edge_remove s e = Inr s"
  by (cases "edges s e")
    (simp_all add: p2tr_edge_is_removed_def p2tr_edge_remove_def edge_at_def)

theorem remove_idempotent_witness:
  "p2tr_edge_remove heap1 0 = Inr heap1r
   \<and> p2tr_edge_is_removed heap1r 0 = Inr True
   \<and> p2tr_edge_remove heap1r 0 = Inr heap1r"
proof -
  from remove_idempotent [OF heap1r_removed] heap1r_removed heap1r_remove
  show ?thesis by simp
qed

text \<open>
  A second removal, of either direction, after a removal that went through changes
  nothing.
\<close>

lemma remove_twice:
  assumes E: "edges s e = Some E" and M: "edges s (mirror E) = Some M"
    and b: "e_end E = Some b" and a: "e_end M = Some a"
    and A: "points s a = Some A" and B: "points s b = Some B"
    and rc: "a = b \<Longrightarrow> p_refcount A \<noteq> 1"
    and be: "bound_ok s e" and bm: "bound_ok s (mirror E)"
  shows "\<exists>s'. p2tr_edge_remove s e = Inr s' \<and> p2tr_edge_remove s' e = Inr s'
     \<and> p2tr_edge_remove s' (mirror E) = Inr s'"
proof -
  note eff = remove_effect [OF E M b a A B rc be bm]
  have self: "mirror E = e \<Longrightarrow> M = E" using E M by simp
  obtain s' where s': "p2tr_edge_remove s e = Inr s'"
    "edges s' e = Some (if mirror E = e then M\<lparr>tri := None, e_end := None\<rparr>
        else E\<lparr>tri := None, e_end := None\<rparr>)"
    "edges s' (mirror E) = Some (M\<lparr>tri := None, e_end := None\<rparr>)"
    using eff by simp
  have "p2tr_edge_remove s' e = Inr s'"
    by (rule remove_removed [OF s'(2)]) simp
  moreover have "p2tr_edge_remove s' (mirror E) = Inr s'"
    by (rule remove_removed [OF s'(3)]) simp
  ultimately show ?thesis using s'(1) by blast
qed

text \<open>
  C9. When the mesh of \<open>e\<close> resolves to \<open>k\<close> at the start of the removal,
  \<^verbatim>\<open>p2tr_edge_remove\<close> makes, after the triangle removals of the cascade, exactly two
  calls of the hook: for \<open>e\<close> and then for its mirror. Both find the heap the removal ends
  with, in which both directions are removed, \<open>e\<close> is detached from its start point and
  the mirror from the end point, and the end points have been released.
\<close>

theorem remove_notifies_mesh:
  assumes E: "edges s e = Some E" and M: "edges s (mirror E) = Some M"
    and b: "e_end E = Some b" and a: "e_end M = Some a"
    and A: "points s a = Some A" and B: "points s b = Some B"
    and rc: "a = b \<Longrightarrow> p_refcount A \<noteq> 1"
    and be: "bound_ok s e" and bm: "bound_ok s (mirror E)"
    and k: "p2tr_edge_get_mesh s e = Inr (Some k)"
  shows "\<exists>s' tcs. p2tr_edge_remove s e = Inr s'
     \<and> calls s' = calls s @ tcs @
           [Edge_Removed k e (snapshot_of s'), Edge_Removed k (mirror E) (snapshot_of s')]
     \<and> list_all (\<lambda>c. call_triangle c \<noteq> None) tcs
     \<and> p2tr_edge_is_removed s' e = Inr True
     \<and> p2tr_edge_is_removed s' (mirror E) = Inr True
     \<and> points s' = release b (release a (detach b (mirror E) (detach a e (points s))))"
proof -
  have mk: "mesh B = Some k"
    using k E b B by (simp add: p2tr_edge_get_mesh_def edge_at_def p2tr_point_get_mesh_def point_at_def)
  note eff = remove_effect [OF E M b a A B rc be bm]
  define s' where "s' = projr (p2tr_edge_remove s e)"
  have r: "p2tr_edge_remove s e = Inr s'" by (simp add: s'_def eff)
  have self: "mirror E = e \<Longrightarrow> M = E" using E M by simp
  have c: "calls s' = calls s @ cascade_calls s E M @
           [Edge_Removed k e (snapshot_of s'), Edge_Removed k (mirror E) (snapshot_of s')]"
    by (simp add: s'_def eff mk notify_both_calls)
  have "p2tr_edge_is_removed s' e = Inr True" "p2tr_edge_is_removed s' (mirror E) = Inr True"
    "points s' = release b (release a (detach b (mirror E) (detach a e (points s))))"
    using self by (simp_all add: s'_def eff p2tr_edge_is_removed_def edge_at_def)
  with r c cascade_calls_triangles [of s E M] show ?thesis by blast
qed

theorem remove_notifies_mesh_witness:
  "p2tr_edge_get_mesh heap1 0 = Inr (Some 0)
   \<and> (\<exists>s'. p2tr_edge_remove heap1 0 = Inr s'
     \<and> calls s' = [Edge_Removed 0 0 (snapshot_of s'), Edge_Removed 0 1 (snapshot_of s')]
     \<and> p2tr_edge_is_removed s' 0 = Inr True
     \<and> p2tr_edge_is_removed s' 1 = Inr True
     \<and> map_option outgoing_edges (points s' 0) = Some {}
     \<and> map_option outgoing_edges (points s' 1) = Some {})"
proof
  show m: "p2tr_edge_get_mesh heap1 0 = Inr (Some 0)"
    using heap1_edges heap1_points
    by (simp add: p2tr_edge_get_mesh_def p2tr_point_get_mesh_def edge_at_def point_at_def pt_def)
  from remove_notifies_mesh [of heap1 0 "the (edges heap1 0)" "the (edges heap1 1)" 1 0
      "the (points heap1 0)" "the (points heap1 1)" 0]
    heap1_edges heap1_points heap1_bound m
  obtain s' tcs where s': "p2tr_edge_remove heap1 0 = Inr s'"
    "calls s' = calls heap1 @ tcs @
           [Edge_Removed 0 0 (snapshot_of s'), Edge_Removed 0 1 (snapshot_of s')]"
    "p2tr_edge_is_removed s' 0 = Inr True" "p2tr_edge_is_removed s' 1 = Inr True"
    "points s' = release 1 (release 0 (detach 1 1 (detach 0 0 (points heap1))))"
    by (auto simp: pt_def)
  have "s' = heap1r" using s'(1) heap1r_remove by simp
  then have "calls s' = [Edge_Removed 0 0 (snapshot_of s'), Edge_Removed 0 1 (snapshot_of s')]"
    using heap1r_calls by simp
  moreover have "map_option outgoing_edges (points s' 0) = Some {}"
    "map_option outgoing_edges (points s' 1) = Some {}"
    using s'(5) heap1_points by (simp_all add: release_def detach_def pt_def)
  ultimately show "\<exists>s'. p2tr_edge_remove heap1 0 = Inr s'
     \<and> calls s' = [Edge_Removed 0 0 (snapshot_of s'), Edge_Removed 0 1 (snapshot_of s')]
     \<and> p2tr_edge_is_removed s' 0 = Inr True
     \<and> p2tr_edge_is_removed s' 1 = Inr True
     \<and> map_option outgoing_edges (points s' 0) = Some {}
     \<and> map_option outgoing_edges (points s' 1) = Some {}"
    using s'(1,3,4) by blast
qed

subsection \<open>Reference counting\<close>

text \<open>
  C5. Dropping the last reference of a pair (count 1 on the edge, 0 on its mirror, as
  \<^verbatim>\<open>p2tr_edge_new\<close> leaves them) is meant to free both blocks. \<^verbatim>\<open>p2tr_edge_unref\<close>
  enters \<^verbatim>\<open>p2tr_edge_free\<close>, which removes the edge, releases the block of the edge and then
  reads the mirror pointer out of the released block: the computation ends in
  \<open>Invalid_Access\<close> instead of a heap without the pair.
\<close>

theorem unref_last_reference:
  "p2tr_edge_new heap0 (Some 0) (Some 1) False = Inr (0, heap1)
   \<and> map_option refcount (edges heap1 0) = Some 1
   \<and> map_option refcount (edges heap1 1) = Some 0
   \<and> p2tr_edge_unref heap1 0 = Inl Invalid_Access"
proof (intro conjI)
  show "p2tr_edge_new heap0 (Some 0) (Some 1) False = Inr (0, heap1)" by (rule heap1_new)
  show "map_option refcount (edges heap1 0) = Some 1" "map_option refcount (edges heap1 1) = Some 0"
    using heap1_edges by simp_all
  define s1 where "s1 = put_edge heap1 0 ((the (edges heap1 0))\<lparr>refcount := 0\<rparr>)"
  have u: "p2tr_edge_unref heap1 0 = p2tr_edge_free s1 0"
    using heap1_edges unref_enters_free [of heap1 0 "the (edges heap1 0)" "the (edges heap1 1)"]
    by (simp add: s1_def)
  have "\<exists>s'. p2tr_edge_remove s1 0 = Inr s'"
    using heap1_edges heap1_points
      remove_effect [of s1 0 "the (edges s1 0)" "the (edges s1 1)" 1 0
        "the (points s1 0)" "the (points s1 1)"]
    by (simp add: s1_def put_edge_def bound_ok_def pt_def)
  then show "p2tr_edge_unref heap1 0 = Inl Invalid_Access"
    using u free_after_remove by auto
qed

subsection \<open>The colours read from a point file\<close>

text \<open>
  What a run that returns leaves in the colours array: one element for every iteration
  that parsed a colour line, made of the point buffer of that iteration and a third
  component that the program does not determine.
\<close>

lemma read_points_file_colors:
  "read_points_file (Some scans) want_points True = Inr res \<Longrightarrow>
   r_colors res =
     Some (map (\<lambda>(p, c). map Some (point_buffer p) @ [None]) (color_lines scans))"
  using read_loop_colors [of scans _ res "[]"]
  by (simp add: read_points_file_def)

text \<open>
  C10. The element appended for a parsed colour line is said to be the point buffer of
  the iteration, with the parsed colour discarded; the array is documented as an array
  of colours. For a file with the point line \<open>@ 1 2\<close> and the gray level \<open># 7\<close> the code
  appends neither the colour \<open>(7, 7, 7)\<close> nor the point buffer alone: the element holds
  the two coordinates and a third \<^verbatim>\<open>gfloat\<close> read past the end of \<open>ptc\<close>.
\<close>

theorem colour_element_read_past_point_buffer:
  "read_points_file (Some [(Scanned [1, 2], Scanned [7]), (Scan_EOF, Scan_EOF)]) True True =
     Inr \<lparr>r_points = Some [(1, 2 :: real)], r_colors = Some [[Some 1, Some 2, None]],
          countPts = 1, countCls = 1\<rparr>"
  by (simp add: read_points_file_def scan_store_def scan_count_def g_array_append_val_def
      numeral_3_eq_3)

end
